theory Spec2Isabelle
  imports Main "HOL-Library.AList"
begin

section \<open>Documents\<close>

text \<open>
  Configuration documents (the root service document, fragments, import declarations) are
  plain JavaScript values: the result of parsing YAML/JSON or the return value of an
  executable fragment. Objects are association lists in insertion order. A document is
  kept as the tree that a walk of it reads. Where one object of a loaded document can be
  reached along several paths (a YAML anchor and its aliases, an object that an executable
  fragment uses twice), the host names those paths: see \<open>aliases\<close> below.
\<close>

datatype jval =
    JUndefined
  | JNull
  | JBool bool
  | JNum int
  | JStr string
  | JArr "jval list"
  | JObj "(string \<times> jval) list"

text \<open>\<open>x == null\<close>: null or undefined.\<close>

fun nullish :: "jval \<Rightarrow> bool" where
  "nullish JUndefined = True"
| "nullish JNull = True"
| "nullish _ = False"

text \<open>JavaScript truthiness, as used by \<open>||\<close> and \<open>if\<close>.\<close>

fun truthy :: "jval \<Rightarrow> bool" where
  "truthy JUndefined = False"
| "truthy JNull = False"
| "truthy (JBool b) = b"
| "truthy (JNum n) = (n \<noteq> 0)"
| "truthy (JStr s) = (s \<noteq> [])"
| "truthy (JArr xs) = True"
| "truthy (JObj kvs) = True"

text \<open>
  Reading a named property \<open>o.k\<close> of a value that is not null or undefined (the callers
  handle those two, where the read throws). None of the names read by the plugin
  (\<open>custom\<close>, \<open>import\<close>, \<open>functions\<close>, \<open>handler\<close>, \<open>module\<close>, \<open>inputs\<close>, \<open>plugins\<close>) is a
  property of a primitive or of an array, so only objects answer.
\<close>

fun get_prop :: "jval \<Rightarrow> string \<Rightarrow> jval" where
  "get_prop (JObj kvs) k = (case map_of kvs k of Some v \<Rightarrow> v | None \<Rightarrow> JUndefined)"
| "get_prop _ k = JUndefined"

text \<open>Assigning a property \<open>o.k = v\<close> of an object: an existing key keeps its place.\<close>

fun set_prop :: "jval \<Rightarrow> string \<Rightarrow> jval \<Rightarrow> jval" where
  "set_prop (JObj kvs) k v = JObj (AList.update k v kvs)"
| "set_prop other k v = other"

text \<open>A path into a document: object keys and array indices.\<close>

datatype key = Key string | Idx nat

text \<open>The value at a path; \<open>undefined\<close> where the path leads nowhere.\<close>

fun get_path :: "jval \<Rightarrow> key list \<Rightarrow> jval" where
  "get_path v [] = v"
| "get_path (JObj kvs) (Key k # ks) =
     (case map_of kvs k of Some child \<Rightarrow> get_path child ks | None \<Rightarrow> JUndefined)"
| "get_path (JArr xs) (Idx i # ks) = (if i < length xs then get_path (xs ! i) ks else JUndefined)"
| "get_path v (k # ks) = JUndefined"

text \<open>
  The document with the value at a path replaced; unchanged where the path leads nowhere.
\<close>

fun put_path :: "jval \<Rightarrow> key list \<Rightarrow> jval \<Rightarrow> jval" where
  "put_path v [] new = new"
| "put_path (JObj kvs) (Key k # ks) new =
     (case map_of kvs k of
        Some child \<Rightarrow> JObj (AList.update k (put_path child ks new) kvs)
      | None \<Rightarrow> JObj kvs)"
| "put_path (JArr xs) (Idx i # ks) new =
     (if i < length xs then JArr (xs[i := put_path (xs ! i) ks new]) else JArr xs)"
| "put_path v (k # ks) new = v"

section \<open>Strings\<close>

text \<open>\<open>xs.join(sep)\<close> on an array of strings.\<close>

fun js_join :: "string \<Rightarrow> string list \<Rightarrow> string" where
  "js_join sep [] = []"
| "js_join sep [x] = x"
| "js_join sep (x # y # ys) = x @ sep @ js_join sep (y # ys)"

text \<open>\<open>s.split(c)\<close> for a one-character separator: the pieces between the separators.\<close>

fun js_split :: "char \<Rightarrow> string \<Rightarrow> string list" where
  "js_split c [] = [[]]"
| "js_split c (x # xs) =
     (case js_split c xs of
        [] \<Rightarrow> [[x]]
      | p # ps \<Rightarrow> if x = c then [] # p # ps else (x # p) # ps)"

text \<open>
  The first occurrence of a pattern in a string: the text before it and the text after it.
\<close>

fun find_sub :: "string \<Rightarrow> string \<Rightarrow> (string \<times> string) option" where
  "find_sub pat [] = (if pat = [] then Some ([], []) else None)"
| "find_sub pat (c # cs) =
     (if take (length pat) (c # cs) = pat then Some ([], drop (length pat) (c # cs))
      else map_option (\<lambda>(b, a). (c # b, a)) (find_sub pat cs))"

text \<open>
  The replacement text of \<open>String.prototype.replace\<close> with a string pattern (no capture
  groups): \<open>$$\<close> is a dollar sign, \<open>$&\<close> the matched text, \<open>$`\<close> the text before the match,
  \<open>$'\<close> the text after it; everything else stands for itself.
\<close>

fun substitution :: "string \<Rightarrow> string \<Rightarrow> string \<Rightarrow> string \<Rightarrow> string" where
  "substitution m b a [] = []"
| "substitution m b a [c] = [c]"
| "substitution m b a (c # d # r) =
     (if c = CHR ''$'' \<and> d = CHR ''$'' then CHR ''$'' # substitution m b a r
      else if c = CHR ''$'' \<and> d = CHR ''&'' then m @ substitution m b a r
      else if c = CHR ''$'' \<and> d = CHR 0x60 then b @ substitution m b a r
      else if c = CHR ''$'' \<and> d = CHR 0x27 then a @ substitution m b a r
      else c # substitution m b a (d # r))"

text \<open>\<open>s.replace(pat, repl)\<close> with a string pattern: only the first occurrence is replaced.\<close>

definition js_replace :: "string \<Rightarrow> string \<Rightarrow> string \<Rightarrow> string" where
  "js_replace s pat repl =
     (case find_sub pat s of
        None \<Rightarrow> s
      | Some (b, a) \<Rightarrow> b @ substitution pat b a repl @ a)"

section \<open>The host\<close>

text \<open>
  Everything the plugin calls but does not define: Node's \<open>path\<close> module of the platform,
  the file system, the module resolver, the framework's variable engine, its file reader,
  \<open>require\<close>, the plugin manager's shape and the merge primitive. A call that throws (or a
  promise that rejects) returns \<open>Inl\<close> of the error's message; \<open>populateService\<close> is \<open>Some\<close>
  of the message when its promise rejects.

  The loaders (\<open>readFileSync\<close>, the function of an executable fragment) return object
  graphs. \<open>aliases d p\<close> lists, for a loaded document \<open>d\<close>, the other paths of \<open>d\<close> that lead
  to the very object found at path \<open>p\<close>; it is empty when that object is reachable along
  \<open>p\<close> only, as everywhere in a document without shared objects.
\<close>

datatype stats = Stats (isDirectory: bool)

text \<open>
  What \<open>require\<close> returns for an executable fragment: a function, or something else whose
  \<open>default\<close> property is a function or not. A fragment function returns the fragment or
  throws.
\<close>

datatype jsexport =
    ExportFunction "jval \<Rightarrow> string + jval"
  | ExportOther "(jval \<Rightarrow> string + jval) option"

text \<open>One entry of the variable engine's \<open>getMatches\<close>: the matched text and its variable.\<close>

record vmatch =
  match :: string
  variable :: string

record host =
  path_sep :: char
  path_extname :: "string \<Rightarrow> string"
  path_dirname :: "string \<Rightarrow> string"
  path_join :: "string \<Rightarrow> string \<Rightarrow> string"
  path_relative :: "string \<Rightarrow> string \<Rightarrow> string"
  path_resolve :: "string \<Rightarrow> string"
  REALPATH :: string
  statSync :: "string \<Rightarrow> string + stats"
  resolveModule :: "string \<Rightarrow> string \<Rightarrow> string + string"
  populateService :: "string option"
  populateProperty :: "jval \<Rightarrow> string + string"
  readFileSync :: "string \<Rightarrow> string + jval"
  require :: "string \<Rightarrow> string + jsexport"
  variableSyntax :: "string \<Rightarrow> bool"
  getMatches :: "string \<Rightarrow> vmatch list option"
  aliases :: "jval \<Rightarrow> key list \<Rightarrow> key list list"
  merge :: "jval \<Rightarrow> jval \<Rightarrow> jval"
  hasLoadServicePlugins :: bool
  resolveServicePlugins :: "jval list \<Rightarrow> jval list"

text \<open>
  Modelled from the spec: \<open>tryOrUndefined\<close> of \<open>./utils\<close> is not among the sources. It runs
  its argument and turns any failure into \<open>undefined\<close> (section 4.1: any failure is treated
  as non-existence, errors are swallowed at this layer).
\<close>

fun tryOrUndefined :: "string + 'a \<Rightarrow> 'a option" where
  "tryOrUndefined (Inl e) = None"
| "tryOrUndefined (Inr v) = Some v"

section \<open>Resolution\<close>

definition SERVERLESS :: string where
  "SERVERLESS = ''serverless''"

definition DIRNAME :: string where
  "DIRNAME = ''dirname''"

definition JS_EXTNAME :: string where
  "JS_EXTNAME = ''.js''"

text \<open>A JavaScript \<open>Set\<close> iterates in insertion order.\<close>

definition CONFIG_EXTNAMES :: "string list" where
  "CONFIG_EXTNAMES = [''.yml'', ''.yaml'', JS_EXTNAME]"

text \<open>The probes a resolution makes, in the order it makes them.\<close>

datatype probe = Stat string | ResolveModule string string

text \<open>
  The loop over \<open>CONFIG_EXTNAMES\<close> of the directory branch: \<open>Inr\<close> is the early return,
  \<open>Inl\<close> the list \<open>tries\<close> when the loop ends.
\<close>

fun probeFiles ::
  "host \<Rightarrow> string \<Rightarrow> string list \<Rightarrow> string list \<Rightarrow> probe list \<Rightarrow> (string list + string) \<times> probe list"
where
  "probeFiles H pathToImport [] tries ps = (Inl tries, ps)"
| "probeFiles H pathToImport (configExtname # rest) tries ps =
     (let possibleFile = path_join H pathToImport (SERVERLESS @ configExtname) in
      case tryOrUndefined (statSync H possibleFile) of
        Some st \<Rightarrow> (Inr possibleFile, ps @ [Stat possibleFile])
      | None \<Rightarrow> probeFiles H pathToImport rest (tries @ [possibleFile]) (ps @ [Stat possibleFile]))"

text \<open>The loop of the module branch; \<open>if (resolved)\<close> also rejects the empty string.\<close>

fun probeModules ::
  "host \<Rightarrow> string \<Rightarrow> string \<Rightarrow> string list \<Rightarrow> string list \<Rightarrow> probe list \<Rightarrow> (string list + string) \<times> probe list"
where
  "probeModules H pathToImport basedir [] tries ps = (Inl tries, ps)"
| "probeModules H pathToImport basedir (configExtname # rest) tries ps =
     (let possibleFile = path_join H pathToImport (SERVERLESS @ configExtname);
          resolved = tryOrUndefined (resolveModule H possibleFile basedir);
          ps' = ps @ [ResolveModule possibleFile basedir]
      in case resolved of
           Some r \<Rightarrow>
             if r \<noteq> [] then (Inr r, ps')
             else probeModules H pathToImport basedir rest (tries @ [possibleFile]) ps'
         | None \<Rightarrow> probeModules H pathToImport basedir rest (tries @ [possibleFile]) ps')"

definition triedList :: "string list \<Rightarrow> string" where
  "triedList tries = ''Tried: '' @ [CHR 0x0A] @ '' - '' @ js_join ([CHR 0x0A] @ '' - '') tries"

text \<open>
  \<open>resolvePathToImport\<close>: the resolved path or the thrown error's message, with the probes
  made. The raw path first goes through the host's variable population.
\<close>

definition resolvePathToImport ::
  "host \<Rightarrow> jval \<Rightarrow> string \<Rightarrow> (string + string) \<times> probe list"
where
  "resolvePathToImport H rawPath basedir =
     (case populateService H of
        Some e \<Rightarrow> (Inl e, [])
      | None \<Rightarrow>
     (case populateProperty H rawPath of
        Inl e \<Rightarrow> (Inl e, [])
      | Inr pathToImport \<Rightarrow>
          if path_extname H pathToImport \<in> set CONFIG_EXTNAMES then
            (case tryOrUndefined (statSync H pathToImport) of
               Some st \<Rightarrow> (Inr pathToImport, [Stat pathToImport])
             | None \<Rightarrow>
                 (case tryOrUndefined (resolveModule H pathToImport basedir) of
                    Some r \<Rightarrow>
                      if r \<noteq> [] then
                        (Inr r, [Stat pathToImport, ResolveModule pathToImport basedir])
                      else
                        (Inl (''Cannot import '' @ pathToImport @ '': the given file doesn'' @ [CHR 0x27] @ ''t exist''),
                         [Stat pathToImport, ResolveModule pathToImport basedir])
                  | None \<Rightarrow>
                      (Inl (''Cannot import '' @ pathToImport @ '': the given file doesn'' @ [CHR 0x27] @ ''t exist''),
                       [Stat pathToImport, ResolveModule pathToImport basedir])))
          else
            (case tryOrUndefined (statSync H pathToImport) of
               Some (Stats True) \<Rightarrow>
                 (case probeFiles H pathToImport CONFIG_EXTNAMES [] [Stat pathToImport] of
                    (Inr possibleFile, ps) \<Rightarrow> (Inr possibleFile, ps)
                  | (Inl tries, ps) \<Rightarrow>
                      (Inl (''Cannot import '' @ pathToImport @ '': ''
                            @ ''in the given directory no serverless config can be found'' @ [CHR 0x0A]
                            @ triedList tries), ps))
             | _ \<Rightarrow>
                 (case probeModules H pathToImport basedir CONFIG_EXTNAMES [] [Stat pathToImport] of
                    (Inr resolved, ps) \<Rightarrow> (Inr resolved, ps)
                  | (Inl tries, ps) \<Rightarrow>
                      (Inl (''Cannot import '' @ pathToImport @ '': ''
                            @ ''the given module cannot be resolved'' @ [CHR 0x0A]
                            @ triedList tries), ps)))))"

section \<open>Preparing a loaded fragment\<close>

text \<open>\<open>toPosixPath\<close>: \<open>location.split(path.sep).join(path.posix.sep)\<close>.\<close>

definition toPosixPath :: "host \<Rightarrow> string \<Rightarrow> string" where
  "toPosixPath H location = js_join ''/'' (js_split (path_sep H) location)"

text \<open>
  The messages of the TypeErrors the engine raises are those of V8 on the source as
  written; they name the value as \<open>null\<close> or \<open>undefined\<close>.
\<close>

fun nullishName :: "jval \<Rightarrow> string" where
  "nullishName JNull = ''null''"
| "nullishName other = ''undefined''"

definition TypeError_handler :: "jval \<Rightarrow> string" where
  "TypeError_handler func =
     ''Cannot read properties of '' @ nullishName func
       @ '' (reading '' @ [CHR 0x27] @ ''handler'' @ [CHR 0x27] @ '')''"

definition TypeError_functions :: "jval \<Rightarrow> string" where
  "TypeError_functions config =
     ''Cannot destructure property '' @ [CHR 0x27] @ ''functions'' @ [CHR 0x27] @ '' of ''
       @ [CHR 0x27] @ ''config'' @ [CHR 0x27] @ '' as it is '' @ nullishName config @ ''.''"

text \<open>
  The body of the \<open>forEach\<close> over the function entries: reading \<open>func.handler\<close> throws on a
  null entry; a string handler is reassigned; anything else is left alone.
\<close>

definition rewriteHandler :: "host \<Rightarrow> string \<Rightarrow> jval \<Rightarrow> string + jval" where
  "rewriteHandler H importDir func =
     (if nullish func then Inl (TypeError_handler func)
      else case get_prop func ''handler'' of
             JStr handler \<Rightarrow>
               Inr (set_prop func ''handler'' (JStr (toPosixPath H (path_join H importDir handler))))
           | _ \<Rightarrow> Inr func)"

text \<open>
  \<open>Object.values(functions)\<close>, each entry by its path in the document: the values of an
  object or the elements of an array; the characters of a string have no handler, and
  other primitives have no values.
\<close>

definition entryPaths :: "jval \<Rightarrow> key list list" where
  "entryPaths config =
     (case get_prop config ''functions'' of
        JObj kvs \<Rightarrow> map (\<lambda>k. [Key ''functions'', Key k]) (map fst kvs)
      | JArr xs \<Rightarrow> map (\<lambda>i. [Key ''functions'', Idx i]) [0..<length xs]
      | _ \<Rightarrow> [])"

text \<open>
  The \<open>forEach\<close> over the entries. The entry is read as it is now, after the iterations
  before, and \<open>func.handler = ...\<close> changes the entry object in place: the new object shows
  at the entry's own path and at every other path that leads to the same object. An
  object entered under two function names is therefore rewritten twice.
\<close>

fun rewriteEntries ::
  "host \<Rightarrow> string \<Rightarrow> (key list \<Rightarrow> key list list) \<Rightarrow> key list list \<Rightarrow> jval \<Rightarrow> string + jval"
where
  "rewriteEntries H importDir same [] config = Inr config"
| "rewriteEntries H importDir same (p # ps) config =
     (case rewriteHandler H importDir (get_path config p) of
        Inl e \<Rightarrow> Inl e
      | Inr func' \<Rightarrow>
          rewriteEntries H importDir same ps
            (fold (\<lambda>q c. put_path c q func') (p # same p) config))"

text \<open>The first half of \<open>prepareImportedConfig\<close>.\<close>

definition rewriteHandlers :: "host \<Rightarrow> string \<Rightarrow> jval \<Rightarrow> string + jval" where
  "rewriteHandlers H importDir config =
     rewriteEntries H importDir (aliases H config) (entryPaths config) config"

text \<open>
  The framework's \<open>getProperties(config, true, config)\<close>: every leaf of the document with
  its path, walking arrays by index and objects by key.
\<close>

fun getProperties :: "key list \<Rightarrow> jval \<Rightarrow> (key list \<times> jval) list"
  and getPropertiesArr :: "key list \<Rightarrow> nat \<Rightarrow> jval list \<Rightarrow> (key list \<times> jval) list"
  and getPropertiesObj :: "key list \<Rightarrow> (string \<times> jval) list \<Rightarrow> (key list \<times> jval) list"
where
  "getProperties context (JArr xs) = getPropertiesArr context 0 xs"
| "getProperties context (JObj kvs) = getPropertiesObj context kvs"
| "getProperties context JUndefined = [(context, JUndefined)]"
| "getProperties context JNull = [(context, JNull)]"
| "getProperties context (JBool b) = [(context, JBool b)]"
| "getProperties context (JNum n) = [(context, JNum n)]"
| "getProperties context (JStr s) = [(context, JStr s)]"
| "getPropertiesArr context i [] = []"
| "getPropertiesArr context i (x # xs) =
     getProperties (context @ [Idx i]) x @ getPropertiesArr context (Suc i) xs"
| "getPropertiesObj context [] = []"
| "getPropertiesObj context ((k, v) # kvs) =
     getProperties (context @ [Key k]) v @ getPropertiesObj context kvs"

text \<open>
  lodash \<open>set(object, path, value)\<close> for a path that addresses a place of the document, the
  only paths the plugin passes (they come from \<open>getProperties\<close> of the same document).
  With the empty path, or on a value that is not an object, lodash returns its argument
  unchanged. Where lodash would create missing containers the model leaves the document
  as it is.
\<close>

fun set_path :: "jval \<Rightarrow> key list \<Rightarrow> jval \<Rightarrow> jval" where
  "set_path obj [] v = obj"
| "set_path (JObj kvs) (Key k # ks) v =
     (if ks = [] then JObj (AList.update k v kvs)
      else case map_of kvs k of
             Some child \<Rightarrow> JObj (AList.update k (set_path child ks v) kvs)
           | None \<Rightarrow> JObj kvs)"
| "set_path (JArr xs) (Idx i # ks) v =
     (if i < length xs then JArr (xs[i := (if ks = [] then v else set_path (xs ! i) ks v)])
      else JArr xs)"
| "set_path obj (k # ks) v = obj"

text \<open>
  The second half of \<open>prepareImportedConfig\<close>, for one property: each match whose variable
  is \<open>dirname\<close> computes a new value from the property's value as it was enumerated and
  stores it at the property's path. (A property of a shared object is enumerated along
  every path to the object, with one value, and so receives one new value along each of
  them: storing along the property's own path gives the same document.)
\<close>

definition substituteProperty :: "host \<Rightarrow> string \<Rightarrow> key list \<times> jval \<Rightarrow> jval \<Rightarrow> jval" where
  "substituteProperty H importDir property config =
     (case snd property of
        JStr val \<Rightarrow>
          if variableSyntax H val then
            (case getMatches H val of
               Some matches \<Rightarrow>
                 fold (\<lambda>m cfg. set_path cfg (fst property) (JStr (js_replace val (match m) importDir)))
                      (filter (\<lambda>m. variable m = DIRNAME) matches) config
             | None \<Rightarrow> config)
          else config
      | _ \<Rightarrow> config)"

definition substituteDirname :: "host \<Rightarrow> string \<Rightarrow> jval \<Rightarrow> jval" where
  "substituteDirname H importDir config =
     fold (substituteProperty H importDir) (getProperties [] config) config"

definition importDirOf :: "host \<Rightarrow> string \<Rightarrow> string" where
  "importDirOf H importPath = path_relative H (REALPATH H) (path_dirname H importPath)"

text \<open>
  \<open>prepareImportedConfig\<close>: the prepared fragment (the source mutates it in place), or the
  message of the error thrown on the way.
\<close>

definition prepareImportedConfig :: "host \<Rightarrow> string \<Rightarrow> jval \<Rightarrow> string + jval" where
  "prepareImportedConfig H importPath config =
     (if nullish config then Inl (TypeError_functions config)
      else case rewriteHandlers H (importDirOf H importPath) config of
             Inl e \<Rightarrow> Inl e
           | Inr config' \<Rightarrow> Inr (substituteDirname H (importDirOf H importPath) config'))"

section \<open>Imports\<close>

definition TypeError_custom :: "jval \<Rightarrow> string" where
  "TypeError_custom config =
     ''Cannot read properties of '' @ nullishName config
       @ '' (reading '' @ [CHR 0x27] @ ''custom'' @ [CHR 0x27] @ '')''"

text \<open>
  \<open>getImports\<close>: \<open>config.custom || {}\<close>, then its \<open>import\<close> property: an array as it is, a
  non-empty string as a one-element list, anything else as no import.
\<close>

definition getImports :: "jval \<Rightarrow> string + jval list" where
  "getImports config =
     (if nullish config then Inl (TypeError_custom config)
      else
        let custom = get_prop config ''custom'';
            imports = (if truthy custom then get_prop custom ''import'' else JUndefined)
        in case imports of
             JArr xs \<Rightarrow> Inr xs
           | JStr s \<Rightarrow> if s \<noteq> [] then Inr [JStr s] else Inr []
           | _ \<Rightarrow> Inr [])"

text \<open>
  Asynchrony. An \<open>async\<close> function runs until its first \<open>await\<close> and then suspends; what
  follows runs later, from the job queue, after the synchronous code that called it has
  finished. \<open>importConfig\<close> reaches its first \<open>await\<close> (inside \<open>resolvePathToImport\<close>)
  before it resolves, loads or merges anything, so a call of \<open>importConfig\<close> queues a task,
  and the task does the rest when the queue reaches it. A task remembers whether its
  promise is awaited by the activation (\<open>await Promise.all\<close> of the root's imports) or
  dropped (the nested \<open>this.importConfigs(...)\<close> inside \<open>importConfig\<close>, which is neither
  awaited nor returned).
\<close>

datatype task = Task (options: jval) (basedir: string) (awaited: bool)

datatype event =
    CliLog string
  | Merged jval
  | ConsoleError string
  | LoadServicePlugins "jval list"
  | AddPlugin jval

record state =
  service :: jval
  events :: "event list"
  pending :: "task list"
  rejection :: "string option"
  unhandled :: "string list"

text \<open>
  A rejected import. Awaited: \<open>Promise.all\<close> rejects with the first rejection, and the
  constructor's \<open>catch\<close> handler writes it to the error stream and throws it again; later
  rejections of the same \<open>Promise.all\<close> change nothing. Dropped: nothing handles it.
\<close>

definition reject :: "bool \<Rightarrow> string \<Rightarrow> state \<Rightarrow> state" where
  "reject aw e st =
     (if aw then
        (case rejection st of
           None \<Rightarrow> st\<lparr>events := events st @ [ConsoleError e], rejection := Some e\<rparr>
         | Some first \<Rightarrow> st)
      else st\<lparr>unhandled := unhandled st @ [e]\<rparr>)"

text \<open>\<open>importConfigs\<close>: one queued task per import of the document.\<close>

definition importConfigs :: "jval \<Rightarrow> string \<Rightarrow> bool \<Rightarrow> state \<Rightarrow> state" where
  "importConfigs config dir aw st =
     (case getImports config of
        Inl e \<Rightarrow> reject aw e st
      | Inr imports \<Rightarrow> st\<lparr>pending := pending st @ map (\<lambda>pathToImport. Task pathToImport dir aw) imports\<rparr>)"

definition TypeError_importFunction :: string where
  "TypeError_importFunction = ''importFunction is not a function''"

text \<open>
  The load inside the \<open>try\<close> block of \<open>importConfig\<close>: an executable fragment is required
  and its function called with the inputs, any other file is read by the framework.
\<close>

definition loadConfig :: "host \<Rightarrow> string \<Rightarrow> jval \<Rightarrow> string + jval" where
  "loadConfig H importPath inputs =
     (if path_extname H importPath = JS_EXTNAME then
        (case require H (path_resolve H importPath) of
           Inl e \<Rightarrow> Inl e
         | Inr importExports \<Rightarrow>
             (case (case importExports of ExportFunction f \<Rightarrow> Some f | ExportOther d \<Rightarrow> d) of
                Some importFunction \<Rightarrow> importFunction inputs
              | None \<Rightarrow> Inl TypeError_importFunction))
      else readFileSync H importPath)"

definition cannotImport :: "string \<Rightarrow> string \<Rightarrow> string" where
  "cannotImport importPath msg =
     ''Error: Cannot import '' @ importPath @ [CHR 0x0A] @ ''Cause: '' @ msg"

text \<open>\<open>typeof options === "object" && options != null\<close>.\<close>

fun isFullOptions :: "jval \<Rightarrow> bool" where
  "isFullOptions (JObj kvs) = True"
| "isFullOptions (JArr xs) = True"
| "isFullOptions _ = False"

definition moduleOf :: "jval \<Rightarrow> jval" where
  "moduleOf opts = (if isFullOptions opts then get_prop opts ''module'' else opts)"

definition inputsOf :: "jval \<Rightarrow> jval" where
  "inputsOf opts = (if isFullOptions opts then get_prop opts ''inputs'' else JObj [])"

text \<open>
  \<open>importConfig\<close> from its first \<open>await\<close> on: resolve, log, load, prepare, start the
  fragment's own imports without waiting for them, merge. \<open>Inl\<close> is the message the
  promise rejects with.
\<close>

definition importConfig :: "host \<Rightarrow> jval \<Rightarrow> string \<Rightarrow> state \<Rightarrow> (string + unit) \<times> state" where
  "importConfig H opts dir st =
     (case fst (resolvePathToImport H (moduleOf opts) dir) of
        Inl e \<Rightarrow> (Inl e, st)
      | Inr importPath \<Rightarrow>
          (let st1 = st\<lparr>events := events st @ [CliLog (''Importing '' @ importPath)]\<rparr> in
           case loadConfig H importPath (inputsOf opts) of
             Inl msg \<Rightarrow> (Inl (cannotImport importPath msg), st1)
           | Inr loaded \<Rightarrow>
               (case prepareImportedConfig H importPath loaded of
                  Inl msg \<Rightarrow> (Inl (cannotImport importPath msg), st1)
                | Inr config \<Rightarrow>
                    (let st2 = importConfigs config (path_dirname H importPath) False st1 in
                     (Inr (),
                      st2\<lparr>service := merge H (service st2) config,
                          events := events st2 @ [Merged config]\<rparr>)))))"

text \<open>One task of the job queue.\<close>

fun runTask :: "host \<Rightarrow> task \<Rightarrow> state \<Rightarrow> state" where
  "runTask H (Task opts dir aw) st =
     (case importConfig H opts dir st of
        (Inl e, st') \<Rightarrow> reject aw e st'
      | (Inr u, st') \<Rightarrow> st')"

text \<open>
  The job queue, first in first out, until it is empty: the order in which the imports
  finish when the host's promises all take equally long. Imports that import each other
  never empty the queue, so the run is bounded by fuel: \<open>None\<close> when the fuel runs out
  first.
\<close>

fun run :: "host \<Rightarrow> nat \<Rightarrow> state \<Rightarrow> state option" where
  "run H 0 st = (if pending st = [] then Some st else None)"
| "run H (Suc n) st =
     (case pending st of
        [] \<Rightarrow> Some st
      | t # ts \<Rightarrow> run H n (runTask H t (st\<lparr>pending := ts\<rparr>)))"

text \<open>
  The order in which suspended imports resume depends on the host's promises. Any order:
  one step runs some queued task.
\<close>

inductive step :: "host \<Rightarrow> state \<Rightarrow> state \<Rightarrow> bool" for H :: host where
  pick: "pending st = before @ t # after \<Longrightarrow>
         step H st (runTask H t (st\<lparr>pending := before @ after\<rparr>))"

section \<open>Plugins and the constructor\<close>

definition TypeError_slice :: string where
  "TypeError_slice = ''this.serverless.service.plugins?.slice is not a function''"

text \<open>\<open>plugins?.slice() ?? []\<close>: a copy of an array (or string), the empty array when absent.\<close>

fun originalPluginsOf :: "jval \<Rightarrow> string + jval" where
  "originalPluginsOf JUndefined = Inr (JArr [])"
| "originalPluginsOf JNull = Inr (JArr [])"
| "originalPluginsOf (JArr xs) = Inr (JArr xs)"
| "originalPluginsOf (JStr s) = Inr (JStr s)"
| "originalPluginsOf other = Inl TypeError_slice"

text \<open>
  lodash \<open>difference(array, values)\<close>: the elements of \<open>array\<close> not among \<open>values\<close>, in the
  order of \<open>array\<close>; empty when \<open>array\<close> is not an array, and \<open>values\<close> counts only when it
  is one. Plugin identifiers are strings, compared by value.
\<close>

fun difference :: "jval \<Rightarrow> jval \<Rightarrow> jval list" where
  "difference (JArr xs) (JArr ys) = filter (\<lambda>x. x \<notin> set ys) xs"
| "difference (JArr xs) other = xs"
| "difference other vs = []"

definition loadImportedPlugins :: "host \<Rightarrow> jval \<Rightarrow> state \<Rightarrow> state" where
  "loadImportedPlugins H originalPlugins st =
     (let newPlugins = difference (get_prop (service st) ''plugins'') originalPlugins in
      if hasLoadServicePlugins H then st\<lparr>events := events st @ [LoadServicePlugins newPlugins]\<rparr>
      else st\<lparr>events := events st @ map AddPlugin (filter truthy (resolveServicePlugins H newPlugins))\<rparr>)"

text \<open>
  The constructor, which is synchronous: snapshot the plugins, start the imports (they
  queue and suspend), load the imported plugins. The queue runs after it returns.
\<close>

definition constructor :: "host \<Rightarrow> jval \<Rightarrow> string + state" where
  "constructor H svc =
     (case originalPluginsOf (get_prop svc ''plugins'') of
        Inl e \<Rightarrow> Inl e
      | Inr originalPlugins \<Rightarrow>
          Inr (loadImportedPlugins H originalPlugins
                 (importConfigs svc (REALPATH H) True
                    \<lparr>service = svc, events = [], pending = [], rejection = None, unhandled = []\<rparr>)))"

text \<open>The whole activation: the constructor, then the job queue.\<close>

definition activate :: "host \<Rightarrow> nat \<Rightarrow> jval \<Rightarrow> string + state option" where
  "activate H fuel svc =
     (case constructor H svc of
        Inl e \<Rightarrow> Inl e
      | Inr st \<Rightarrow> Inr (run H fuel st))"

section \<open>A POSIX host\<close>

text \<open>
  Node's \<open>path.posix\<close> functions, used to run the plugin on concrete inputs. A path is
  normalised segment by segment: empty segments and \<open>.\<close> disappear, \<open>..\<close> removes the
  segment before it (and stays only in front of a relative path).
\<close>

fun normalizeString :: "bool \<Rightarrow> string list \<Rightarrow> string list \<Rightarrow> string list" where
  "normalizeString allowAboveRoot [] res = res"
| "normalizeString allowAboveRoot (seg # segs) res =
     (if seg = [] \<or> seg = ''.'' then normalizeString allowAboveRoot segs res
      else if seg = ''..'' then
        (if res \<noteq> [] \<and> last res \<noteq> ''..'' then normalizeString allowAboveRoot segs (butlast res)
         else if allowAboveRoot then normalizeString allowAboveRoot segs (res @ [''..''])
         else normalizeString allowAboveRoot segs res)
      else normalizeString allowAboveRoot segs (res @ [seg]))"

definition posix_normalize :: "string \<Rightarrow> string" where
  "posix_normalize p =
     (if p = [] then ''.''
      else
        let isAbsolute = (hd p = CHR ''/'');
            trailingSeparator = (last p = CHR ''/'');
            body = js_join ''/'' (normalizeString (\<not> isAbsolute) (js_split CHR ''/'' p) [])
        in if body = [] then (if isAbsolute then ''/'' else if trailingSeparator then ''./'' else ''.'')
           else (if isAbsolute then ''/'' else []) @ body @ (if trailingSeparator then ''/'' else []))"

definition posix_join :: "string \<Rightarrow> string \<Rightarrow> string" where
  "posix_join a b =
     (if a = [] \<and> b = [] then ''.''
      else if a = [] then posix_normalize b
      else if b = [] then posix_normalize a
      else posix_normalize (a @ ''/'' @ b))"

definition posix_dirname :: "string \<Rightarrow> string" where
  "posix_dirname p =
     (if p = [] then ''.''
      else
        let hasRoot = (hd p = CHR ''/'');
            r1 = dropWhile (\<lambda>c. c = CHR ''/'') (rev (tl p));
            r2 = dropWhile (\<lambda>c. c \<noteq> CHR ''/'') r1
        in if r2 = [] then (if hasRoot then ''/'' else ''.'')
           else if hasRoot \<and> length r2 = 1 then ''//''
           else take (length r2) p)"

definition posix_extname :: "string \<Rightarrow> string" where
  "posix_extname p =
     (let base = rev (takeWhile (\<lambda>c. c \<noteq> CHR ''/'') (dropWhile (\<lambda>c. c = CHR ''/'') (rev p)));
          ext = rev (takeWhile (\<lambda>c. c \<noteq> CHR ''.'') (rev base))
      in if CHR ''.'' \<notin> set base \<or> length base = Suc (length ext) \<or> base = ''..'' then []
         else CHR ''.'' # ext)"

definition posix_resolve :: "string \<Rightarrow> string \<Rightarrow> string" where
  "posix_resolve cwd p =
     CHR ''/'' # js_join ''/''
       (normalizeString False
          (js_split CHR ''/'' (if p \<noteq> [] \<and> hd p = CHR ''/'' then p else cwd @ ''/'' @ p)) [])"

fun dropCommon :: "string list \<Rightarrow> string list \<Rightarrow> string list \<times> string list" where
  "dropCommon (x # xs) (y # ys) = (if x = y then dropCommon xs ys else (x # xs, y # ys))"
| "dropCommon xs ys = (xs, ys)"

definition posix_relative :: "string \<Rightarrow> string \<Rightarrow> string \<Rightarrow> string" where
  "posix_relative cwd from to =
     (if from = to then []
      else
        let f = normalizeString False (js_split CHR ''/'' (posix_resolve cwd from)) [];
            t = normalizeString False (js_split CHR ''/'' (posix_resolve cwd to)) []
        in case dropCommon f t of
             (up, down) \<Rightarrow> js_join ''/'' (map (\<lambda>seg. ''..'') up @ down))"

text \<open>
  Modelled from the spec: \<open>merge\<close> of \<open>./merge\<close> is not among the sources. Section 6: it
  deep-merges the source into the target; object keys recurse, arrays concatenate, scalars
  are overwritten by the source's value.
\<close>

fun mergeValue :: "jval \<Rightarrow> jval \<Rightarrow> jval"
  and mergeFields :: "(string \<times> jval) list \<Rightarrow> (string \<times> jval) list \<Rightarrow> (string \<times> jval) list"
where
  "mergeValue tgt (JObj s) = (case tgt of JObj t \<Rightarrow> JObj (mergeFields t s) | _ \<Rightarrow> JObj s)"
| "mergeValue tgt (JArr b) = (case tgt of JArr a \<Rightarrow> JArr (a @ b) | _ \<Rightarrow> JArr b)"
| "mergeValue tgt JUndefined = JUndefined"
| "mergeValue tgt JNull = JNull"
| "mergeValue tgt (JBool b) = JBool b"
| "mergeValue tgt (JNum n) = JNum n"
| "mergeValue tgt (JStr x) = JStr x"
| "mergeFields t [] = t"
| "mergeFields t ((k, v) # s) =
     mergeFields
       (case map_of t k of
          None \<Rightarrow> t @ [(k, v)]
        | Some tv \<Rightarrow> AList.update k (mergeValue tv v) t) s"

text \<open>
  Modelled from the spec: the call \<open>merge(service, config)\<close> merges into the service in
  place, so the service stays the object it is; only an object has keys to merge in.
\<close>

definition specMerge :: "jval \<Rightarrow> jval \<Rightarrow> jval" where
  "specMerge tgt src =
     (case tgt of
        JObj t \<Rightarrow> (case src of JObj s \<Rightarrow> JObj (mergeFields t s) | _ \<Rightarrow> tgt)
      | _ \<Rightarrow> tgt)"

text \<open>
  An example variable syntax: \<open>${name}\<close>, the name without \<open>$\<close>, \<open>{\<close> and \<open>}\<close>; the variable
  is the name with its blanks removed.
\<close>

definition tokenAt :: "string \<Rightarrow> string option" where
  "tokenAt s =
     (if take 2 s = ''${'' then
        (let nm = takeWhile (\<lambda>c. c \<notin> set ''${}'') (drop 2 s) in
         if nm \<noteq> [] \<and> take 1 (drop (2 + length nm) s) = ''}'' then Some nm else None)
      else None)"

fun scanVars :: "string \<Rightarrow> vmatch list" where
  "scanVars [] = []"
| "scanVars (c # cs) =
     (case tokenAt (c # cs) of
        Some nm \<Rightarrow>
          \<lparr>match = ''${'' @ nm @ ''}'', variable = filter (\<lambda>x. x \<noteq> CHR '' '') nm\<rparr> # scanVars cs
      | None \<Rightarrow> scanVars cs)"

text \<open>
  An example host on POSIX: the process runs in \<open>cwd\<close>; \<open>files\<close> are the data files with
  their parsed contents, \<open>dirs\<close> the directories; no module resolves and nothing can be
  required; no loaded document has a shared object; the plugin manager has
  \<open>loadServicePlugins\<close>.
\<close>

definition posixHost :: "string \<Rightarrow> (string \<times> jval) list \<Rightarrow> string list \<Rightarrow> host" where
  "posixHost cwd files dirs =
     \<lparr>path_sep = CHR ''/'',
      path_extname = posix_extname,
      path_dirname = posix_dirname,
      path_join = posix_join,
      path_relative = posix_relative cwd,
      path_resolve = posix_resolve cwd,
      REALPATH = cwd,
      statSync = (\<lambda>p. if p \<in> set dirs then Inr (Stats True)
                       else if p \<in> fst ` set files then Inr (Stats False)
                       else Inl ''ENOENT: no such file or directory''),
      resolveModule = (\<lambda>p dir. Inl ''Cannot find module''),
      populateService = None,
      populateProperty = (\<lambda>v. case v of JStr p \<Rightarrow> Inr p | _ \<Rightarrow> Inl ''The path argument must be of type string''),
      readFileSync = (\<lambda>p. case map_of files p of Some v \<Rightarrow> Inr v
                           | None \<Rightarrow> Inl ''ENOENT: no such file or directory''),
      require = (\<lambda>p. Inl ''Cannot find module''),
      variableSyntax = (\<lambda>s. scanVars s \<noteq> []),
      getMatches = (\<lambda>s. if scanVars s = [] then None else Some (scanVars s)),
      aliases = (\<lambda>d p. []),
      merge = specMerge,
      hasLoadServicePlugins = True,
      resolveServicePlugins = (\<lambda>names. names)\<rparr>"

text \<open>The POSIX host with a module resolver that knows the given (specifier, basedir) pairs.\<close>

definition moduleHost :: "((string \<times> string) \<times> string) list \<Rightarrow> host" where
  "moduleHost mods =
     (posixHost ''/proj'' [] [])
       \<lparr>resolveModule := (\<lambda>p dir. case map_of mods (p, dir) of
                                     Some r \<Rightarrow> Inr r
                                   | None \<Rightarrow> Inl ''Cannot find module'')\<rparr>"

text \<open>
  The POSIX host with the directory \<open>fragments/a\<close> and the given files.
\<close>

definition dirHost :: "string list \<Rightarrow> host" where
  "dirHost names = posixHost ''/proj'' (map (\<lambda>n. (n, JObj [])) names) [''fragments/a'']"

text \<open>A directory whose name ends in a config extension, with a config file inside.\<close>

definition confHost :: host where
  "confHost = posixHost ''/proj'' [(''conf.yml/serverless.yml'', JObj [])] [''conf.yml'']"

text \<open>A state with nothing logged, queued or rejected.\<close>

definition emptyState :: "jval \<Rightarrow> state" where
  "emptyState svc = \<lparr>service = svc, events = [], pending = [], rejection = None, unhandled = []\<rparr>"

text \<open>
  A host with executable fragments: \<open>frag.js\<close> exports a function, \<open>def.js\<close> has a default
  export, \<open>bad.js\<close> exports nothing callable, the function of \<open>throws.js\<close> throws.
\<close>

definition jsHost :: host where
  "jsHost =
     (posixHost ''/proj''
        [(''frag.js'', JNull), (''def.js'', JNull), (''bad.js'', JNull), (''throws.js'', JNull),
         (''data.yml'', JObj [(''custom'', JObj [(''foo'', JNum 1)])])] [])
       \<lparr>require := (\<lambda>p.
          if p = ''/proj/frag.js'' then
            Inr (ExportFunction (\<lambda>inputs. Inr (JObj [(''custom'', JObj [(''foo'', get_prop inputs ''foo'')])])))
          else if p = ''/proj/def.js'' then
            Inr (ExportOther (Some (\<lambda>inputs. Inr (JObj [(''custom'', inputs)]))))
          else if p = ''/proj/bad.js'' then Inr (ExportOther None)
          else if p = ''/proj/throws.js'' then Inr (ExportFunction (\<lambda>inputs. Inl ''boom''))
          else Inl ''Cannot find module'')\<rparr>"

text \<open>A root document with one plugin that imports a fragment bringing another plugin.\<close>

definition pluginsHost :: host where
  "pluginsHost =
     posixHost ''/proj'' [(''plugins.yml'', JObj [(''plugins'', JArr [JStr ''serverless-offline''])])] []"

definition pluginsService :: jval where
  "pluginsService =
     JObj [(''plugins'', JArr [JStr ''serverless-import-config-plugin'']),
           (''custom'', JObj [(''import'', JStr ''plugins.yml'')])]"

text \<open>
  A root document importing the directory \<open>fragments/a\<close>, whose fragment imports \<open>./b.yml\<close>;
  the module resolver finds \<open>./b.yml\<close> from the directory \<open>fragments/a\<close> only.
\<close>

definition fragmentA :: jval where
  "fragmentA = JObj [(''custom'', JObj [(''import'', JStr ''./b.yml''), (''stage'', JStr ''from-a'')])]"

definition fragmentB :: jval where
  "fragmentB = JObj [(''custom'', JObj [(''stage'', JStr ''from-b'')])]"

definition nestedHost :: host where
  "nestedHost =
     (posixHost ''/proj''
        [(''fragments/a/serverless.yml'', fragmentA), (''/proj/fragments/a/b.yml'', fragmentB)]
        [''fragments/a''])
       \<lparr>resolveModule := (\<lambda>p dir. if p = ''./b.yml'' \<and> dir = ''fragments/a''
                                   then Inr ''/proj/fragments/a/b.yml''
                                   else Inl ''Cannot find module'')\<rparr>"

definition nestedService :: jval where
  "nestedService = JObj [(''custom'', JObj [(''import'', JStr ''fragments/a'')])]"

text \<open>The same root document where the fragment imports a file that does not exist.\<close>

definition brokenHost :: host where
  "brokenHost =
     posixHost ''/proj''
       [(''fragments/a/serverless.yml'', JObj [(''custom'', JObj [(''import'', JStr ''missing.yml'')])])]
       [''fragments/a'']"


section \<open>Resolution: paths with a config extension\<close>

lemma extname_frag_yml: "posix_extname ''frag.yml'' = ''.yml''"
  by (simp add: posix_extname_def)

text \<open>
  Claim C6. Let \<open>p\<close> be the import path after the host's variable population, with a
  recognised config extension. If \<open>p\<close> exists literally (\<open>statSync\<close> succeeds) it is returned
  and the only probe is that \<open>statSync\<close>: module resolution is not attempted. If it does
  not exist but resolves as a module from the base directory, the module-resolved path is
  returned. If both fail, the error says that the given file doesn't exist.
\<close>

theorem resolve_config_extension:
  assumes "populateService H = None"
      and "populateProperty H rawPath = Inr p"
      and "path_extname H p \<in> set CONFIG_EXTNAMES"
  shows "(statSync H p = Inr st \<longrightarrow> resolvePathToImport H rawPath dir = (Inr p, [Stat p]))
       \<and> (statSync H p = Inl e \<and> resolveModule H p dir = Inr r \<and> r \<noteq> [] \<longrightarrow>
            resolvePathToImport H rawPath dir = (Inr r, [Stat p, ResolveModule p dir]))
       \<and> (statSync H p = Inl e \<and> resolveModule H p dir = Inl e' \<longrightarrow>
            resolvePathToImport H rawPath dir =
              (Inl (''Cannot import '' @ p @ '': the given file doesn'' @ [CHR 0x27] @ ''t exist''),
               [Stat p, ResolveModule p dir]))"
  using assms by (simp add: resolvePathToImport_def)

theorem resolve_config_extension_witness:
  "resolvePathToImport (posixHost ''/proj'' [(''frag.yml'', JObj [])] []) (JStr ''frag.yml'') ''/proj''
     = (Inr ''frag.yml'', [Stat ''frag.yml''])
   \<and> resolvePathToImport (moduleHost [((''frag.yml'', ''/proj''), ''/proj/node_modules/frag.yml'')])
        (JStr ''frag.yml'') ''/proj''
     = (Inr ''/proj/node_modules/frag.yml'', [Stat ''frag.yml'', ResolveModule ''frag.yml'' ''/proj''])
   \<and> resolvePathToImport (moduleHost []) (JStr ''frag.yml'') ''/proj''
     = (Inl (''Cannot import frag.yml: the given file doesn'' @ [CHR 0x27] @ ''t exist''),
        [Stat ''frag.yml'', ResolveModule ''frag.yml'' ''/proj''])"
proof -
  let ?A = "posixHost ''/proj'' [(''frag.yml'', JObj [])] []"
  let ?B = "moduleHost [((''frag.yml'', ''/proj''), ''/proj/node_modules/frag.yml'')]"
  let ?C = "moduleHost []"
  have a: "populateService ?A = None" "populateProperty ?A (JStr ''frag.yml'') = Inr ''frag.yml''"
    "path_extname ?A ''frag.yml'' \<in> set CONFIG_EXTNAMES"
    "statSync ?A ''frag.yml'' = Inr (Stats False)"
    by (simp_all add: posixHost_def extname_frag_yml CONFIG_EXTNAMES_def)
  have b: "populateService ?B = None" "populateProperty ?B (JStr ''frag.yml'') = Inr ''frag.yml''"
    "path_extname ?B ''frag.yml'' \<in> set CONFIG_EXTNAMES"
    "statSync ?B ''frag.yml'' = Inl ''ENOENT: no such file or directory''"
    "resolveModule ?B ''frag.yml'' ''/proj'' = Inr ''/proj/node_modules/frag.yml''"
    by (simp_all add: moduleHost_def posixHost_def extname_frag_yml CONFIG_EXTNAMES_def)
  have c: "populateService ?C = None" "populateProperty ?C (JStr ''frag.yml'') = Inr ''frag.yml''"
    "path_extname ?C ''frag.yml'' \<in> set CONFIG_EXTNAMES"
    "statSync ?C ''frag.yml'' = Inl ''ENOENT: no such file or directory''"
    "resolveModule ?C ''frag.yml'' ''/proj'' = Inl ''Cannot find module''"
    by (simp_all add: moduleHost_def posixHost_def extname_frag_yml CONFIG_EXTNAMES_def)
  show ?thesis
    using resolve_config_extension [OF a(1,2,3), of "Stats False" "''/proj''"]
          resolve_config_extension [OF b(1,2,3), of _ "''/proj''"
            "''ENOENT: no such file or directory''" "''/proj/node_modules/frag.yml''"]
          resolve_config_extension [OF c(1,2,3), of _ "''/proj''"
            "''ENOENT: no such file or directory''" _ "''Cannot find module''"]
          a(4) b(4,5) c(4,5)
    by simp
qed

section \<open>Resolution: directories\<close>

lemma extname_fragments_a: "posix_extname ''fragments/a'' = []"
  by (simp add: posix_extname_def)

lemma join_fragments_a:
  "posix_join ''fragments/a'' ''serverless.yml'' = ''fragments/a/serverless.yml''"
  "posix_join ''fragments/a'' ''serverless.yaml'' = ''fragments/a/serverless.yaml''"
  "posix_join ''fragments/a'' ''serverless.js'' = ''fragments/a/serverless.js''"
  by (simp_all add: posix_join_def posix_normalize_def)

lemma dirHost_facts:
  "populateService (dirHost ns) = None"
  "populateProperty (dirHost ns) (JStr p) = Inr p"
  "path_extname (dirHost ns) = posix_extname"
  "path_join (dirHost ns) = posix_join"
  "statSync (dirHost ns) ''fragments/a'' = Inr (Stats True)"
  by (simp_all add: dirHost_def posixHost_def)

lemma dirHost_stat:
  "statSync (dirHost ns) ''fragments/a/serverless.yml'' =
     (if ''fragments/a/serverless.yml'' \<in> set ns then Inr (Stats False)
      else Inl ''ENOENT: no such file or directory'')"
  "statSync (dirHost ns) ''fragments/a/serverless.yaml'' =
     (if ''fragments/a/serverless.yaml'' \<in> set ns then Inr (Stats False)
      else Inl ''ENOENT: no such file or directory'')"
  "statSync (dirHost ns) ''fragments/a/serverless.js'' =
     (if ''fragments/a/serverless.js'' \<in> set ns then Inr (Stats False)
      else Inl ''ENOENT: no such file or directory'')"
  by (simp_all add: dirHost_def posixHost_def image_image)

text \<open>
  Claim C5, as stated, fails: the extension is tested before the directory. The directory
  \<open>conf.yml\<close> exists and holds \<open>serverless.yml\<close>, yet resolution answers with the directory
  itself after the one \<open>statSync\<close> of it, probing nothing inside.
\<close>

theorem directory_with_config_extension_not_probed:
  "statSync confHost ''conf.yml'' = Inr (Stats True)
   \<and> statSync confHost (path_join confHost ''conf.yml'' ''serverless.yml'') = Inr (Stats False)
   \<and> resolvePathToImport confHost (JStr ''conf.yml'') ''/proj'' = (Inr ''conf.yml'', [Stat ''conf.yml''])"
  by (simp add: confHost_def posixHost_def resolvePathToImport_def posix_extname_def
        CONFIG_EXTNAMES_def posix_join_def posix_normalize_def)

text \<open>
  Claim C5, amended: for an import path (after the host's variable population) whose
  extension is not a recognised config extension and that is an existing directory,
  resolution probes \<open>serverless.yml\<close>, \<open>serverless.yaml\<close>, \<open>serverless.js\<close> inside it in that
  order and returns the first that exists; if none exists the error lists exactly those
  three paths in that order.
\<close>

theorem resolve_directory:
  assumes "populateService H = None"
      and "populateProperty H rawPath = Inr p"
      and "path_extname H p \<notin> set CONFIG_EXTNAMES"
      and "statSync H p = Inr (Stats True)"
      and "f1 = path_join H p ''serverless.yml''"
      and "f2 = path_join H p ''serverless.yaml''"
      and "f3 = path_join H p ''serverless.js''"
  shows "(statSync H f1 = Inr s1 \<longrightarrow>
            resolvePathToImport H rawPath dir = (Inr f1, [Stat p, Stat f1]))
       \<and> (statSync H f1 = Inl e1 \<and> statSync H f2 = Inr s2 \<longrightarrow>
            resolvePathToImport H rawPath dir = (Inr f2, [Stat p, Stat f1, Stat f2]))
       \<and> (statSync H f1 = Inl e1 \<and> statSync H f2 = Inl e2 \<and> statSync H f3 = Inr s3 \<longrightarrow>
            resolvePathToImport H rawPath dir = (Inr f3, [Stat p, Stat f1, Stat f2, Stat f3]))
       \<and> (statSync H f1 = Inl e1 \<and> statSync H f2 = Inl e2 \<and> statSync H f3 = Inl e3 \<longrightarrow>
            resolvePathToImport H rawPath dir =
              (Inl (''Cannot import '' @ p @ '': in the given directory no serverless config can be found''
                    @ [CHR 0x0A] @ ''Tried: '' @ [CHR 0x0A] @ '' - '' @ f1 @ [CHR 0x0A] @ '' - '' @ f2
                    @ [CHR 0x0A] @ '' - '' @ f3),
               [Stat p, Stat f1, Stat f2, Stat f3]))"
  using assms
  by (simp add: resolvePathToImport_def CONFIG_EXTNAMES_def JS_EXTNAME_def SERVERLESS_def
        triedList_def Let_def)

theorem resolve_directory_witness:
  "resolvePathToImport (dirHost [''fragments/a/serverless.yml'', ''fragments/a/serverless.js''])
       (JStr ''fragments/a'') ''/proj''
     = (Inr ''fragments/a/serverless.yml'', [Stat ''fragments/a'', Stat ''fragments/a/serverless.yml''])
   \<and> resolvePathToImport (dirHost [''fragments/a/serverless.js'', ''fragments/a/serverless.yaml''])
       (JStr ''fragments/a'') ''/proj''
     = (Inr ''fragments/a/serverless.yaml'',
        [Stat ''fragments/a'', Stat ''fragments/a/serverless.yml'', Stat ''fragments/a/serverless.yaml''])
   \<and> resolvePathToImport (dirHost [''fragments/a/serverless.js'']) (JStr ''fragments/a'') ''/proj''
     = (Inr ''fragments/a/serverless.js'',
        [Stat ''fragments/a'', Stat ''fragments/a/serverless.yml'', Stat ''fragments/a/serverless.yaml'',
         Stat ''fragments/a/serverless.js''])
   \<and> resolvePathToImport (dirHost []) (JStr ''fragments/a'') ''/proj''
     = (Inl (''Cannot import fragments/a: in the given directory no serverless config can be found''
             @ [CHR 0x0A] @ ''Tried: '' @ [CHR 0x0A] @ '' - fragments/a/serverless.yml'' @ [CHR 0x0A]
             @ '' - fragments/a/serverless.yaml'' @ [CHR 0x0A] @ '' - fragments/a/serverless.js''),
        [Stat ''fragments/a'', Stat ''fragments/a/serverless.yml'', Stat ''fragments/a/serverless.yaml'',
         Stat ''fragments/a/serverless.js''])"
proof -
  note t = resolve_directory [where rawPath = "JStr ''fragments/a''" and p = "''fragments/a''"
      and dir = "''/proj''"
      and ?f1.0 = "''fragments/a/serverless.yml''" and ?f2.0 = "''fragments/a/serverless.yaml''"
      and ?f3.0 = "''fragments/a/serverless.js''"
      and ?s1.0 = "Stats False" and ?s2.0 = "Stats False" and ?s3.0 = "Stats False"
      and ?e1.0 = "''ENOENT: no such file or directory''"
      and ?e2.0 = "''ENOENT: no such file or directory''"
      and ?e3.0 = "''ENOENT: no such file or directory''"]
  show ?thesis
    using t [where H = "dirHost [''fragments/a/serverless.yml'', ''fragments/a/serverless.js'']"]
          t [where H = "dirHost [''fragments/a/serverless.js'', ''fragments/a/serverless.yaml'']"]
          t [where H = "dirHost [''fragments/a/serverless.js'']"]
          t [where H = "dirHost []"]
    by (simp add: dirHost_facts dirHost_stat extname_fragments_a CONFIG_EXTNAMES_def JS_EXTNAME_def
          join_fragments_a)
qed

section \<open>Resolution: modules\<close>

lemma extname_shared: "posix_extname ''shared'' = []"
  by (simp add: posix_extname_def)

lemma join_shared:
  "posix_join ''shared'' ''serverless.yml'' = ''shared/serverless.yml''"
  "posix_join ''shared'' ''serverless.yaml'' = ''shared/serverless.yaml''"
  "posix_join ''shared'' ''serverless.js'' = ''shared/serverless.js''"
  by (simp_all add: posix_join_def posix_normalize_def)

lemma moduleHost_facts:
  "populateService (moduleHost ms) = None"
  "populateProperty (moduleHost ms) (JStr p) = Inr p"
  "path_extname (moduleHost ms) = posix_extname"
  "path_join (moduleHost ms) = posix_join"
  "statSync (moduleHost ms) p = Inl ''ENOENT: no such file or directory''"
  "resolveModule (moduleHost ms) q dir =
     (case map_of ms (q, dir) of Some r \<Rightarrow> Inr r | None \<Rightarrow> Inl ''Cannot find module'')"
  by (simp_all add: moduleHost_def posixHost_def)

text \<open>
  Claim C7. For an import path (after the host's variable population) with no recognised
  config extension that is not an existing directory, resolution attempts module
  resolution of \<open>serverless.yml\<close>, then \<open>serverless.yaml\<close>, then \<open>serverless.js\<close> under the
  path, from the given base directory, and returns the first that resolves; if none
  resolves, the error lists the three attempted module paths in attempt order.
\<close>

theorem resolve_module:
  assumes "populateService H = None"
      and "populateProperty H rawPath = Inr p"
      and "path_extname H p \<notin> set CONFIG_EXTNAMES"
      and "statSync H p \<noteq> Inr (Stats True)"
      and "f1 = path_join H p ''serverless.yml''"
      and "f2 = path_join H p ''serverless.yaml''"
      and "f3 = path_join H p ''serverless.js''"
  shows "(resolveModule H f1 dir = Inr r \<and> r \<noteq> [] \<longrightarrow>
            resolvePathToImport H rawPath dir = (Inr r, [Stat p, ResolveModule f1 dir]))
       \<and> (resolveModule H f1 dir = Inl e1 \<and> resolveModule H f2 dir = Inr r \<and> r \<noteq> [] \<longrightarrow>
            resolvePathToImport H rawPath dir = (Inr r, [Stat p, ResolveModule f1 dir, ResolveModule f2 dir]))
       \<and> (resolveModule H f1 dir = Inl e1 \<and> resolveModule H f2 dir = Inl e2
            \<and> resolveModule H f3 dir = Inr r \<and> r \<noteq> [] \<longrightarrow>
            resolvePathToImport H rawPath dir =
              (Inr r, [Stat p, ResolveModule f1 dir, ResolveModule f2 dir, ResolveModule f3 dir]))
       \<and> (resolveModule H f1 dir = Inl e1 \<and> resolveModule H f2 dir = Inl e2
            \<and> resolveModule H f3 dir = Inl e3 \<longrightarrow>
            resolvePathToImport H rawPath dir =
              (Inl (''Cannot import '' @ p @ '': the given module cannot be resolved''
                    @ [CHR 0x0A] @ ''Tried: '' @ [CHR 0x0A] @ '' - '' @ f1 @ [CHR 0x0A] @ '' - '' @ f2
                    @ [CHR 0x0A] @ '' - '' @ f3),
               [Stat p, ResolveModule f1 dir, ResolveModule f2 dir, ResolveModule f3 dir]))"
proof -
  have nd: "(case tryOrUndefined (statSync H p) of
               Some (Stats True) \<Rightarrow> a | _ \<Rightarrow> b) = b" for a b :: "(string + string) \<times> probe list"
    using assms(4) by (cases "statSync H p") (auto split: stats.splits bool.splits)
  show ?thesis
    using assms(1,2,3,5,6,7)
    by (simp add: resolvePathToImport_def nd CONFIG_EXTNAMES_def JS_EXTNAME_def SERVERLESS_def
          triedList_def Let_def)
qed

theorem resolve_module_witness:
  "resolvePathToImport
       (moduleHost [((''shared/serverless.yml'', ''/proj''), ''/proj/node_modules/shared/serverless.yml'')])
       (JStr ''shared'') ''/proj''
     = (Inr ''/proj/node_modules/shared/serverless.yml'',
        [Stat ''shared'', ResolveModule ''shared/serverless.yml'' ''/proj''])
   \<and> resolvePathToImport
       (moduleHost [((''shared/serverless.yaml'', ''/proj''), ''/proj/node_modules/shared/serverless.yaml'')])
       (JStr ''shared'') ''/proj''
     = (Inr ''/proj/node_modules/shared/serverless.yaml'',
        [Stat ''shared'', ResolveModule ''shared/serverless.yml'' ''/proj'',
         ResolveModule ''shared/serverless.yaml'' ''/proj''])
   \<and> resolvePathToImport
       (moduleHost [((''shared/serverless.js'', ''/proj''), ''/proj/node_modules/shared/serverless.js'')])
       (JStr ''shared'') ''/proj''
     = (Inr ''/proj/node_modules/shared/serverless.js'',
        [Stat ''shared'', ResolveModule ''shared/serverless.yml'' ''/proj'',
         ResolveModule ''shared/serverless.yaml'' ''/proj'', ResolveModule ''shared/serverless.js'' ''/proj''])
   \<and> resolvePathToImport (moduleHost []) (JStr ''shared'') ''/proj''
     = (Inl (''Cannot import shared: the given module cannot be resolved''
             @ [CHR 0x0A] @ ''Tried: '' @ [CHR 0x0A] @ '' - shared/serverless.yml'' @ [CHR 0x0A]
             @ '' - shared/serverless.yaml'' @ [CHR 0x0A] @ '' - shared/serverless.js''),
        [Stat ''shared'', ResolveModule ''shared/serverless.yml'' ''/proj'',
         ResolveModule ''shared/serverless.yaml'' ''/proj'', ResolveModule ''shared/serverless.js'' ''/proj''])"
proof -
  note t = resolve_module [where rawPath = "JStr ''shared''" and p = "''shared''" and dir = "''/proj''"
      and ?f1.0 = "''shared/serverless.yml''" and ?f2.0 = "''shared/serverless.yaml''"
      and ?f3.0 = "''shared/serverless.js''"
      and ?e1.0 = "''Cannot find module''" and ?e2.0 = "''Cannot find module''"
      and ?e3.0 = "''Cannot find module''"]
  show ?thesis
    using t [where H = "moduleHost [((''shared/serverless.yml'', ''/proj''), ''/proj/node_modules/shared/serverless.yml'')]"
               and r = "''/proj/node_modules/shared/serverless.yml''"]
          t [where H = "moduleHost [((''shared/serverless.yaml'', ''/proj''), ''/proj/node_modules/shared/serverless.yaml'')]"
               and r = "''/proj/node_modules/shared/serverless.yaml''"]
          t [where H = "moduleHost [((''shared/serverless.js'', ''/proj''), ''/proj/node_modules/shared/serverless.js'')]"
               and r = "''/proj/node_modules/shared/serverless.js''"]
          t [where H = "moduleHost []"]
    by (simp add: moduleHost_facts extname_shared CONFIG_EXTNAMES_def JS_EXTNAME_def join_shared)
qed

section \<open>Import declarations\<close>

lemma getImports_eq:
  "\<not> nullish config \<Longrightarrow>
   getImports config =
     (case get_prop (get_prop config ''custom'') ''import'' of
        JArr xs \<Rightarrow> Inr xs
      | JStr s \<Rightarrow> if s \<noteq> [] then Inr [JStr s] else Inr []
      | _ \<Rightarrow> Inr [])"
  by (cases "get_prop config ''custom''") (simp_all add: getImports_def)

text \<open>
  Claim C10. When \<open>custom.import\<close> holds a single record (not inside an array),
  \<open>getImports\<close> returns the empty list and \<open>importConfigs\<close> queues nothing: the declaration
  is skipped with no resolution, load or merge. An absent \<open>custom\<close>, an absent \<open>import\<close> and
  an empty-string \<open>import\<close> give no import either. The elements of an array, records
  included, are returned and queued as they are.
\<close>

theorem getImports_single_record_skipped:
  assumes "\<not> nullish config"
  shows "(get_prop (get_prop config ''custom'') ''import'' = JObj r \<longrightarrow>
            getImports config = Inr [] \<and> importConfigs config dir aw st = st)
       \<and> (get_prop config ''custom'' = JUndefined \<longrightarrow> getImports config = Inr [])
       \<and> (get_prop (get_prop config ''custom'') ''import'' = JUndefined \<longrightarrow> getImports config = Inr [])
       \<and> (get_prop (get_prop config ''custom'') ''import'' = JStr [] \<longrightarrow> getImports config = Inr [])
       \<and> (get_prop (get_prop config ''custom'') ''import'' = JArr xs \<longrightarrow>
            getImports config = Inr xs
            \<and> importConfigs config dir aw st
                = st\<lparr>pending := pending st @ map (\<lambda>d. Task d dir aw) xs\<rparr>)"
  using assms by (auto simp add: getImports_eq importConfigs_def)

theorem getImports_single_record_skipped_witness:
  "getImports (JObj [(''custom'', JObj [(''import'', JObj [(''module'', JStr ''frag.yml''), (''inputs'', JObj [])])])])
     = Inr []
   \<and> importConfigs (JObj [(''custom'', JObj [(''import'', JObj [(''module'', JStr ''frag.yml''), (''inputs'', JObj [])])])])
        ''/proj'' True (emptyState JNull)
      = emptyState JNull
   \<and> getImports (JObj [(''service'', JStr ''app'')]) = Inr []
   \<and> getImports (JObj [(''custom'', JObj [(''stage'', JStr ''dev'')])]) = Inr []
   \<and> getImports (JObj [(''custom'', JObj [(''import'', JStr [])])]) = Inr []
   \<and> getImports (JObj [(''custom'', JObj [(''import'', JArr [JObj [(''module'', JStr ''frag.yml''), (''inputs'', JObj [])]])])])
        = Inr [JObj [(''module'', JStr ''frag.yml''), (''inputs'', JObj [])]]
   \<and> pending (importConfigs (JObj [(''custom'', JObj [(''import'', JArr [JObj [(''module'', JStr ''frag.yml''), (''inputs'', JObj [])]])])])
        ''/proj'' True (emptyState JNull))
      = [Task (JObj [(''module'', JStr ''frag.yml''), (''inputs'', JObj [])]) ''/proj'' True]"
  using getImports_single_record_skipped
          [where config = "JObj [(''custom'', JObj [(''import'', JObj [(''module'', JStr ''frag.yml''), (''inputs'', JObj [])])])]"
             and r = "[(''module'', JStr ''frag.yml''), (''inputs'', JObj [])]"
             and dir = "''/proj''" and aw = True and st = "emptyState JNull"]
        getImports_single_record_skipped [where config = "JObj [(''service'', JStr ''app'')]"]
        getImports_single_record_skipped [where config = "JObj [(''custom'', JObj [(''stage'', JStr ''dev'')])]"]
        getImports_single_record_skipped [where config = "JObj [(''custom'', JObj [(''import'', JStr [])])]"]
        getImports_single_record_skipped
          [where config = "JObj [(''custom'', JObj [(''import'', JArr [JObj [(''module'', JStr ''frag.yml''), (''inputs'', JObj [])]])])]"
             and xs = "[JObj [(''module'', JStr ''frag.yml''), (''inputs'', JObj [])]]"
             and dir = "''/proj''" and aw = True and st = "emptyState JNull"]
  by (simp add: emptyState_def)

section \<open>Function handlers\<close>













section \<open>Loading a fragment\<close>

lemma service_reject: "service (reject aw e st) = service st"
  by (simp add: reject_def split: option.splits)

lemma service_importConfigs: "service (importConfigs config dir aw st) = service st"
  by (simp add: importConfigs_def service_reject split: sum.splits)

text \<open>
  Claim C9, as stated, fails for a record declaration that supplies no inputs: the
  function is called with \<open>undefined\<close>, not with an empty mapping. The default export of
  \<open>def.js\<close> returns its argument under \<open>custom\<close>.
\<close>

theorem record_without_inputs_passes_undefined:
  "inputsOf (JObj [(''module'', JStr ''def.js'')]) = JUndefined
   \<and> loadConfig jsHost ''def.js'' (inputsOf (JObj [(''module'', JStr ''def.js'')]))
       = Inr (JObj [(''custom'', JUndefined)])
   \<and> loadConfig jsHost ''def.js'' (JObj []) = Inr (JObj [(''custom'', JObj [])])"
  by code_simp

text \<open>
  Claim C9, amended. A resolved path with the extension \<open>.js\<close> is required; the export
  itself when it is a function, otherwise its default export, is called with the inputs
  (the empty mapping for a bare-string declaration; for a record its \<open>inputs\<close> field as it
  is, \<open>undefined\<close> when the record has none) and its
  return value is the fragment; an export that is not callable, a failing \<open>require\<close> or a
  throwing call is an error. Any other path is read by the framework's \<open>readFileSync\<close>.
  A failed load rejects the import with an error that names the resolved path and carries
  the cause's message; a successful one, once prepared, is merged into the service.
\<close>

theorem executable_fragment_loaded:
  "(path_extname H importPath = JS_EXTNAME \<and> require H (path_resolve H importPath) = Inr (ExportFunction f)
      \<longrightarrow> loadConfig H importPath inputs = f inputs)
   \<and> (path_extname H importPath = JS_EXTNAME \<and> require H (path_resolve H importPath) = Inr (ExportOther (Some f))
      \<longrightarrow> loadConfig H importPath inputs = f inputs)
   \<and> (path_extname H importPath = JS_EXTNAME \<and> require H (path_resolve H importPath) = Inr (ExportOther None)
      \<longrightarrow> loadConfig H importPath inputs = Inl TypeError_importFunction)
   \<and> (path_extname H importPath = JS_EXTNAME \<and> require H (path_resolve H importPath) = Inl e
      \<longrightarrow> loadConfig H importPath inputs = Inl e)
   \<and> (path_extname H importPath \<noteq> JS_EXTNAME
      \<longrightarrow> loadConfig H importPath inputs = readFileSync H importPath)
   \<and> inputsOf (JStr s) = JObj []
   \<and> inputsOf (JObj r) = get_prop (JObj r) ''inputs''
   \<and> (fst (resolvePathToImport H (moduleOf opts) dir) = Inr importPath
       \<and> loadConfig H importPath (inputsOf opts) = Inl msg
      \<longrightarrow> fst (importConfig H opts dir st)
            = Inl (''Error: Cannot import '' @ importPath @ [CHR 0x0A] @ ''Cause: '' @ msg))
   \<and> (fst (resolvePathToImport H (moduleOf opts) dir) = Inr importPath
       \<and> loadConfig H importPath (inputsOf opts) = Inr loaded
       \<and> prepareImportedConfig H importPath loaded = Inr config
      \<longrightarrow> fst (importConfig H opts dir st) = Inr ()
          \<and> service (snd (importConfig H opts dir st)) = merge H (service st) config)"
  by (simp add: loadConfig_def inputsOf_def importConfig_def cannotImport_def Let_def
        service_importConfigs)

theorem executable_fragment_loaded_witness:
  "loadConfig jsHost ''frag.js'' (JObj [(''foo'', JNum 1)]) = Inr (JObj [(''custom'', JObj [(''foo'', JNum 1)])])
   \<and> loadConfig jsHost ''def.js'' (JObj []) = Inr (JObj [(''custom'', JObj [])])
   \<and> loadConfig jsHost ''bad.js'' (JObj []) = Inl ''importFunction is not a function''
   \<and> loadConfig jsHost ''gone.js'' (JObj []) = Inl ''Cannot find module''
   \<and> loadConfig jsHost ''data.yml'' (JObj []) = Inr (JObj [(''custom'', JObj [(''foo'', JNum 1)])])
   \<and> fst (importConfig jsHost (JStr ''throws.js'') ''/proj'' (emptyState (JObj [])))
       = Inl (''Error: Cannot import throws.js'' @ [CHR 0x0A] @ ''Cause: boom'')
   \<and> fst (importConfig jsHost (JStr ''bad.js'') ''/proj'' (emptyState (JObj [])))
       = Inl (''Error: Cannot import bad.js'' @ [CHR 0x0A] @ ''Cause: importFunction is not a function'')
   \<and> service (snd (importConfig jsHost
                      (JObj [(''module'', JStr ''frag.js''), (''inputs'', JObj [(''foo'', JNum 1)])])
                      ''/proj'' (emptyState (JObj []))))
       = JObj [(''custom'', JObj [(''foo'', JNum 1)])]"
proof -
  let ?full = "JObj [(''module'', JStr ''frag.js''), (''inputs'', JObj [(''foo'', JNum 1)])]"
  let ?cfg = "JObj [(''custom'', JObj [(''foo'', JNum 1)])]"
  have ext: "path_extname jsHost ''frag.js'' = JS_EXTNAME" "path_extname jsHost ''def.js'' = JS_EXTNAME"
    "path_extname jsHost ''bad.js'' = JS_EXTNAME" "path_extname jsHost ''gone.js'' = JS_EXTNAME"
    "path_extname jsHost ''data.yml'' \<noteq> JS_EXTNAME"
    by code_simp+
  have req: "require jsHost (path_resolve jsHost ''frag.js'')
               = Inr (ExportFunction (\<lambda>inputs. Inr (JObj [(''custom'', JObj [(''foo'', get_prop inputs ''foo'')])])))"
    "require jsHost (path_resolve jsHost ''def.js'')
               = Inr (ExportOther (Some (\<lambda>inputs. Inr (JObj [(''custom'', inputs)]))))"
    "require jsHost (path_resolve jsHost ''bad.js'') = Inr (ExportOther None)"
    "require jsHost (path_resolve jsHost ''gone.js'') = Inl ''Cannot find module''"
    by (simp_all add: jsHost_def posixHost_def posix_resolve_def)
  have rd: "readFileSync jsHost ''data.yml'' = Inr ?cfg"
    by (simp add: jsHost_def posixHost_def)
  have res: "fst (resolvePathToImport jsHost (moduleOf (JStr ''throws.js'')) ''/proj'') = Inr ''throws.js''"
    "fst (resolvePathToImport jsHost (moduleOf (JStr ''bad.js'')) ''/proj'') = Inr ''bad.js''"
    "fst (resolvePathToImport jsHost (moduleOf ?full) ''/proj'') = Inr ''frag.js''"
    by code_simp+
  have ld: "loadConfig jsHost ''throws.js'' (inputsOf (JStr ''throws.js'')) = Inl ''boom''"
    "loadConfig jsHost ''bad.js'' (inputsOf (JStr ''bad.js'')) = Inl ''importFunction is not a function''"
    "loadConfig jsHost ''frag.js'' (inputsOf ?full) = Inr ?cfg"
    by code_simp+
  have prep: "prepareImportedConfig jsHost ''frag.js'' ?cfg = Inr ?cfg"
    by code_simp
  have mrg: "merge jsHost (service (emptyState (JObj []))) ?cfg = ?cfg"
    by code_simp
  show ?thesis
    using executable_fragment_loaded
            [where H = jsHost and importPath = "''frag.js''" and inputs = "JObj [(''foo'', JNum 1)]"
               and f = "\<lambda>inputs. Inr (JObj [(''custom'', JObj [(''foo'', get_prop inputs ''foo'')])])"
               and opts = ?full and dir = "''/proj''" and st = "emptyState (JObj [])"
               and loaded = ?cfg and config = ?cfg]
          executable_fragment_loaded
            [where H = jsHost and importPath = "''def.js''" and inputs = "JObj []"
               and f = "\<lambda>inputs. Inr (JObj [(''custom'', inputs)])"]
          executable_fragment_loaded
            [where H = jsHost and importPath = "''bad.js''" and inputs = "JObj []"
               and opts = "JStr ''bad.js''" and dir = "''/proj''" and st = "emptyState (JObj [])"
               and msg = "''importFunction is not a function''"]
          executable_fragment_loaded
            [where H = jsHost and importPath = "''gone.js''" and inputs = "JObj []"
               and e = "''Cannot find module''"]
          executable_fragment_loaded
            [where H = jsHost and importPath = "''data.yml''" and inputs = "JObj []"]
          executable_fragment_loaded
            [where H = jsHost and importPath = "''throws.js''"
               and opts = "JStr ''throws.js''" and dir = "''/proj''" and st = "emptyState (JObj [])"
               and msg = "''boom''"]
          ext req rd res ld prep mrg
    by (simp add: TypeError_importFunction_def)
qed

section \<open>Schedules\<close>

text \<open>Running a task only adds events.\<close>

lemma events_reject: "\<exists>es. events (reject aw e st) = events st @ es"
  by (simp add: reject_def split: option.splits)

lemma events_importConfigs: "events (importConfigs config dir False st) = events st"
  by (simp add: importConfigs_def reject_def split: sum.splits)

lemma events_importConfig: "\<exists>es. events (snd (importConfig H opts dir st)) = events st @ es"
  by (simp add: importConfig_def Let_def events_importConfigs split: sum.splits)

lemma events_runTask: "\<exists>es. events (runTask H t st) = events st @ es"
proof (cases t)
  case (Task opts dir aw)
  obtain r st' where ic: "importConfig H opts dir st = (r, st')"
    by (cases "importConfig H opts dir st")
  from events_importConfig [of H opts dir st] ic
  obtain es where es: "events st' = events st @ es" by auto
  show ?thesis
  proof (cases r)
    case (Inl e)
    from events_reject [of aw e st'] obtain es' where "events (reject aw e st') = events st' @ es'"
      by blast
    with Task ic Inl es show ?thesis by simp
  next
    case (Inr u)
    with Task ic es show ?thesis by simp
  qed
qed

lemma events_step: "step H st st' \<Longrightarrow> \<exists>es. events st' = events st @ es"
proof (induction rule: step.induct)
  case (pick st before t after)
  from events_runTask [of H t "st\<lparr>pending := before @ after\<rparr>"] show ?case by simp
qed

lemma events_steps: "rtranclp (step H) st st' \<Longrightarrow> \<exists>es. events st' = events st @ es"
proof (induction rule: rtranclp_induct)
  case base
  then show ?case by simp
next
  case (step y z)
  then obtain es where a: "events y = events st @ es" by blast
  from events_step [OF step.hyps(2)] obtain es' where "events z = events y @ es'" by blast
  with a show ?case by simp
qed

text \<open>The first-in-first-out run is one of the schedules.\<close>

lemma run_steps: "run H n st = Some st' \<Longrightarrow> rtranclp (step H) st st'"
proof (induction n arbitrary: st)
  case 0
  then show ?case by (simp split: if_splits)
next
  case (Suc n)
  show ?case
  proof (cases "pending st")
    case Nil
    with Suc.prems show ?thesis by simp
  next
    case (Cons t ts)
    with Suc.prems have r: "run H n (runTask H t (st\<lparr>pending := ts\<rparr>)) = Some st'"
      by simp
    have "pending st = [] @ t # ts" using Cons by simp
    then have "step H st (runTask H t (st\<lparr>pending := [] @ ts\<rparr>))"
      by (rule step.pick)
    then have "step H st (runTask H t (st\<lparr>pending := ts\<rparr>))" by simp
    then show ?thesis
      using Suc.IH [OF r] by (rule converse_rtranclp_into_rtranclp)
  qed
qed

text \<open>A task whose promise is dropped never rejects the activation.\<close>

lemma rejection_dropped_task:
  "rejection (runTask H (Task opts dir False) st) = rejection st"
  by (simp add: importConfig_def importConfigs_def reject_def Let_def split: sum.splits)

section \<open>Plugin reconciliation\<close>

lemma difference_self: "originalPluginsOf p = Inr orig \<Longrightarrow> difference p orig = []"
  by (cases p) auto

text \<open>
  Whatever the service imports, the constructor hands the plugin manager the empty list:
  \<open>loadImportedPlugins\<close> runs while every import is still suspended at its first \<open>await\<close>,
  so the plugin list it reads is the snapshot itself.
\<close>

lemma constructor_loads_nothing:
  assumes "\<not> nullish svc" and "hasLoadServicePlugins H" and "constructor H svc = Inr st"
  shows "events st = [LoadServicePlugins []] \<and> service st = svc"
proof -
  obtain orig where o: "originalPluginsOf (get_prop svc ''plugins'') = Inr orig"
    using assms(3) by (auto simp add: constructor_def split: sum.splits)
  have "\<exists>xs. getImports svc = Inr xs"
    using assms(1)
    by (cases "get_prop (get_prop svc ''custom'') ''import''") (simp_all add: getImports_eq)
  then obtain xs where g: "getImports svc = Inr xs"
    by blast
  show ?thesis
    using assms(2,3) o g difference_self [OF o]
    by (auto simp add: constructor_def loadImportedPlugins_def importConfigs_def Let_def)
qed

text \<open>
  In every schedule the empty list handed over by the constructor stays the first event:
  no import precedes the reconciliation.
\<close>

lemma reconciliation_precedes_imports:
  assumes "\<not> nullish svc" and "hasLoadServicePlugins H" and "constructor H svc = Inr st0"
      and "rtranclp (step H) st0 st"
  shows "\<exists>es. events st = LoadServicePlugins [] # es"
  using constructor_loads_nothing [OF assms(1,2,3)] events_steps [OF assms(4)] by auto

text \<open>
  Claim C1 says that the plugins handed to the plugin manager are the root's final plugin
  list minus the snapshot, reconciliation running after every import. On the code it does
  not hold. The root lists \<open>serverless-import-config-plugin\<close> and imports \<open>plugins.yml\<close>,
  which lists \<open>serverless-offline\<close>. The activation hands the plugin manager the empty
  list, as its first event, before the import is logged and merged; the final plugin list
  holds both plugins, and its difference with the snapshot is \<open>serverless-offline\<close>.
\<close>

theorem plugins_reconciled_before_imports:
  "activate pluginsHost 1 pluginsService =
     Inr (Some \<lparr>service = JObj [(''plugins'', JArr [JStr ''serverless-import-config-plugin'',
                                                    JStr ''serverless-offline'']),
                                (''custom'', JObj [(''import'', JStr ''plugins.yml'')])],
                events = [LoadServicePlugins [], CliLog ''Importing plugins.yml'',
                          Merged (JObj [(''plugins'', JArr [JStr ''serverless-offline''])])],
                pending = [], rejection = None, unhandled = []\<rparr>)
   \<and> difference (JArr [JStr ''serverless-import-config-plugin'', JStr ''serverless-offline''])
        (JArr [JStr ''serverless-import-config-plugin'']) = [JStr ''serverless-offline'']"
  by code_simp

section \<open>Nested imports\<close>

text \<open>
  The imports of a fragment are queued with the fragment's own directory as base
  directory, and their promises are dropped.
\<close>

lemma nested_imports_use_fragment_directory:
  assumes "fst (resolvePathToImport H (moduleOf opts) dir) = Inr importPath"
      and "loadConfig H importPath (inputsOf opts) = Inr loaded"
      and "prepareImportedConfig H importPath loaded = Inr config"
      and "getImports config = Inr xs"
  shows "pending (snd (importConfig H opts dir st))
           = pending st @ map (\<lambda>d. Task d (path_dirname H importPath) False) xs"
  using assms by (simp add: importConfig_def importConfigs_def Let_def)

text \<open>
  Claim C2 says that the imports of a fragment are fully processed before the fragment's
  own merge into the root completes, with the fragment's directory as their base
  directory. The base directory is as claimed; the order is not. The root imports the
  directory \<open>fragments/a\<close>, whose fragment sets \<open>custom.stage\<close> to \<open>from-a\<close> and imports
  \<open>./b.yml\<close>, which sets it to \<open>from-b\<close>. When the task of \<open>fragments/a\<close> has run, the
  fragment is merged into the service while its import is still queued, not yet resolved
  (base directory \<open>fragments/a\<close>, promise dropped). The whole activation merges the
  fragment first and \<open>b.yml\<close> second.
\<close>

theorem fragment_merged_before_its_imports:
  "constructor nestedHost nestedService =
     Inr \<lparr>service = nestedService, events = [LoadServicePlugins []],
          pending = [Task (JStr ''fragments/a'') ''/proj'' True], rejection = None, unhandled = []\<rparr>
   \<and> runTask nestedHost (Task (JStr ''fragments/a'') ''/proj'' True)
        \<lparr>service = nestedService, events = [LoadServicePlugins []],
          pending = [], rejection = None, unhandled = []\<rparr>
      = \<lparr>service = JObj [(''custom'', JObj [(''import'', JStr ''./b.yml''), (''stage'', JStr ''from-a'')])],
         events = [LoadServicePlugins [], CliLog ''Importing fragments/a/serverless.yml'', Merged fragmentA],
         pending = [Task (JStr ''./b.yml'') ''fragments/a'' False], rejection = None, unhandled = []\<rparr>
   \<and> activate nestedHost 2 nestedService =
       Inr (Some \<lparr>service = JObj [(''custom'', JObj [(''import'', JStr ''./b.yml''), (''stage'', JStr ''from-b'')])],
                  events = [LoadServicePlugins [], CliLog ''Importing fragments/a/serverless.yml'',
                            Merged fragmentA, CliLog ''Importing /proj/fragments/a/b.yml'', Merged fragmentB],
                  pending = [], rejection = None, unhandled = []\<rparr>)"
  by code_simp

section \<open>Failures\<close>

text \<open>
  A rejection of a dropped promise reaches neither the activation's promise nor the error
  stream.
\<close>

lemma dropped_rejection_not_logged:
  "rejection (reject False e st) = rejection st
   \<and> events (reject False e st) = events st
   \<and> unhandled (reject False e st) = unhandled st @ [e]"
  by (simp add: reject_def)

text \<open>
  Claim C3 says that a resolution or load failure at any depth propagates as an error
  thrown from the top-level activation, logged to the error stream and raised again. For
  an import of the root it does: with the root importing the missing \<open>missing.yml\<close>, the
  activation's promise rejects with the resolution error, after it was written to the
  error stream. One level down it does not: with the root importing \<open>fragments/a\<close>, whose
  fragment imports \<open>missing.yml\<close>, the activation ends with no rejection and nothing on the
  error stream; the error is the rejection of a promise nobody handles.
\<close>

theorem nested_failure_not_propagated:
  "activate brokenHost 2 nestedService =
     Inr (Some \<lparr>service = JObj [(''custom'', JObj [(''import'', JStr ''missing.yml'')])],
                events = [LoadServicePlugins [], CliLog ''Importing fragments/a/serverless.yml'',
                          Merged (JObj [(''custom'', JObj [(''import'', JStr ''missing.yml'')])])],
                pending = [], rejection = None,
                unhandled = [''Cannot import missing.yml: the given file doesn'' @ [CHR 0x27] @ ''t exist'']\<rparr>)
   \<and> activate brokenHost 2 (JObj [(''custom'', JObj [(''import'', JStr ''missing.yml'')])]) =
     Inr (Some \<lparr>service = JObj [(''custom'', JObj [(''import'', JStr ''missing.yml'')])],
                events = [LoadServicePlugins [],
                          ConsoleError (''Cannot import missing.yml: the given file doesn'' @ [CHR 0x27] @ ''t exist'')],
                pending = [],
                rejection = Some (''Cannot import missing.yml: the given file doesn'' @ [CHR 0x27] @ ''t exist''),
                unhandled = []\<rparr>)"
  by code_simp

section \<open>The dirname placeholder\<close>

text \<open>
  Claim C4 says that every placeholder of a string whose variable is \<open>dirname\<close> is replaced
  by the fragment's directory relative to the project root, other placeholders staying.
  With one \<open>dirname\<close> placeholder it is so (\<open>mixed\<close> below). With two in one string it is
  not: each match computes its replacement from the value as it was enumerated, and
  \<open>replace\<close> with a string pattern replaces the first occurrence only, so the second
  placeholder of \<open>searchPath\<close> survives.
\<close>

theorem second_dirname_placeholder_survives:
  "prepareImportedConfig (moduleHost []) ''fragments/a/serverless.yml''
     (JObj [(''custom'', JObj [(''searchPath'', JStr ''${dirname}/lib:${dirname}/bin''),
                               (''mixed'', JStr ''${dirname}/x-${self:stage}'')])])
   = Inr (JObj [(''custom'', JObj [(''searchPath'', JStr ''fragments/a/lib:${dirname}/bin''),
                                   (''mixed'', JStr ''fragments/a/x-${self:stage}'')])])"
  by code_simp

end
